theory Spec2Isabelle
  imports Main "HOL-Library.AList" "HOL-Library.Sublist" "HOL-Library.Word"
begin

unbundle bit_operations_syntax

section \<open>Errors\<close>

text \<open>
  Every exception the modelled code can raise is a value. \<open>PyException\<close> is Python's
  \<^verbatim>\<open>raise Exception(arg, ...)\<close> with its arguments; \<open>AssertionError\<close> is a failed
  \<^verbatim>\<open>assert\<close>; \<open>KeyError\<close> is a failed subscript of a mapping. The remaining
  constructors are the error kinds of the specification (section 7) that the modelled
  operations use.
\<close>

datatype error =
    AssertionError
  | PyException "string list"
  | KeyError string
  | OpenModeConflictError
  | ReadOnlyError
  | TypeMarshalError
  | EngineError string

section \<open>Paths\<close>

text \<open>
  \<^verbatim>\<open>str.startswith\<close> and \<^verbatim>\<open>str.endswith\<close>, then \<^verbatim>\<open>os.path.join\<close> (two
  arguments) and \<^verbatim>\<open>os.path.basename\<close> as posixpath defines them:
  \<^verbatim>\<open>
  def join(a, *p):
      path = a
      for b in p:
          if b.startswith('/'):            path = b
          elif not path or path.endswith('/'): path += b
          else:                            path += '/' + b
      return path

  def basename(p):
      i = p.rfind('/') + 1
      return p[i:]
  \<close>
\<close>

definition startswith :: "string \<Rightarrow> string \<Rightarrow> bool" where
  "startswith s p = prefix p s"

definition endswith :: "string \<Rightarrow> string \<Rightarrow> bool" where
  "endswith s p = suffix p s"

definition path_join :: "string \<Rightarrow> string \<Rightarrow> string" where
  "path_join a b =
     (if startswith b ''/'' then b
      else if a = [] \<or> endswith a ''/'' then a @ b
      else a @ ''/'' @ b)"

definition basename :: "string \<Rightarrow> string" where
  "basename p = rev (takeWhile (\<lambda>c. c \<noteq> CHR ''/'') (rev p))"



section \<open>Storage objects and groups\<close>

text \<open>
  The lifecycle state of a storage object (specification, section 3:
  \<open>openMode\<close> is \<open>Closed | ReadOnly | ReadWrite\<close>), and the argument of
  \<^verbatim>\<open>open\<close>: \<^verbatim>\<open>'r'\<close> or \<^verbatim>\<open>'w'\<close>.
\<close>

datatype open_state = Closed | ReadOnly | ReadWrite

datatype open_arg = R | W

fun state_of :: "open_arg \<Rightarrow> open_state" where
  "state_of R = ReadOnly"
| "state_of W = ReadWrite"

text \<open>
  What the storage engine reports for a group member: \<^verbatim>\<open>tiledb.object.Object\<close> with
  its name, its URI and its \<^verbatim>\<open>type\<close> (the group class, the array class, or anything
  else, kept as the text \<^verbatim>\<open>str(obj.type)\<close> gives).
\<close>

datatype tiledb_type = TGroup | TArray | TOther string

record tiledb_object =
  obj_name :: string
  obj_uri :: string
  obj_type :: tiledb_type

text \<open>
  Modelled from the spec: the base class \<^verbatim>\<open>TileDBGroup\<close> is not among the sources.
  Its fields here are the attributes the pairwise matrix group passes to it or reads from
  it (\<open>uri\<close>, \<open>name\<close>, \<open>parent\<close>, kept as the parent's URI, \<open>verbose\<close> and
  \<open>indent\<close>), the lifecycle state of section 3, and the membership mapping of section 3
  (name to child URI and child type tag), in insertion order.
\<close>

record tiledb_group =
  uri :: string
  name :: string
  parent :: "string option"
  verbose :: bool
  indent :: string
  open_mode :: open_state
  members :: "(string \<times> string \<times> tiledb_type) list"

text \<open>
  \<^verbatim>\<open>class AnnotationPairwiseMatrixGroup(TileDBGroup)\<close> adds the two dimension names.
\<close>

record annotation_pairwise_matrix_group = tiledb_group +
  row_dim_name :: string
  col_dim_name :: string

text \<open>
  The matrix objects the group constructs: \<^verbatim>\<open>AssayMatrix\<close> in \<^verbatim>\<open>from_anndata\<close>
  and \<^verbatim>\<open>AnnotationPairwiseMatrix\<close> in \<^verbatim>\<open>__getitem__\<close>, both with the keyword
  arguments \<^verbatim>\<open>uri, name, row_dim_name, col_dim_name, parent\<close>.
\<close>

datatype matrix_handle =
    AssayMatrix (m_uri: string) (m_name: string)
      (m_row_dim_name: string) (m_col_dim_name: string) (m_parent: string)
  | AnnotationPairwiseMatrix (m_uri: string) (m_name: string)
      (m_row_dim_name: string) (m_col_dim_name: string) (m_parent: string)

subsection \<open>The base class\<close>

text \<open>
  Modelled from the spec: the base-class constructor \<^verbatim>\<open>TileDBGroup.__init__\<close> is not
  among the sources. Section 3: a storage object is created with a URI and is closed until
  opened; a group starts with no members. \<open>verbose\<close> and \<open>indent\<close>, which the
  specification does not describe, are parameters.
\<close>

definition super_init ::
  "bool \<Rightarrow> string \<Rightarrow> string \<Rightarrow> string \<Rightarrow> string option \<Rightarrow> tiledb_group" where
  "super_init vb ind u nm par =
     \<lparr>uri = u, name = nm, parent = par, verbose = vb, indent = ind,
      open_mode = Closed, members = []\<rparr>"

text \<open>
  Modelled from the spec: \<^verbatim>\<open>TileDBGroup.open\<close> is not among the sources. Section 4.3:
  ``idempotent no-op if already open in the same mode; fails with OpenModeConflictError
  if already open in a different mode; otherwise binds to physical state''. The physical
  state is the storage engine's and is no field of the group.
\<close>

definition tiledb_open ::
  "open_arg \<Rightarrow> 'a tiledb_group_scheme \<Rightarrow> error + 'a tiledb_group_scheme" where
  "tiledb_open m g =
     (if open_mode g = Closed then Inr (g\<lparr>open_mode := state_of m\<rparr>)
      else if open_mode g = state_of m then Inr g
      else Inl OpenModeConflictError)"

text \<open>
  Modelled from the spec: \<^verbatim>\<open>TileDBGroup.close\<close> is not among the sources. Section 4.3:
  ``flushes then tears down the Metadata Store; idempotent if already closed''.
\<close>

definition tiledb_close :: "'a tiledb_group_scheme \<Rightarrow> 'a tiledb_group_scheme" where
  "tiledb_close g = g\<lparr>open_mode := Closed\<rparr>"

text \<open>
  Modelled from the spec: \<^verbatim>\<open>TileDBGroup.add_object\<close> is not among the sources.
  Section 4.4: ``requires the group to be currently open for writing; fails with
  ReadOnlyError otherwise; registers/overwrites the mapping entry''.
\<close>

definition add_object ::
  "matrix_handle \<Rightarrow> 'a tiledb_group_scheme \<Rightarrow> error + 'a tiledb_group_scheme" where
  "add_object obj g =
     (if open_mode g = ReadWrite
      then Inr (g\<lparr>members := AList.update (m_name obj) (m_uri obj, TArray) (members g)\<rparr>)
      else Inl ReadOnlyError)"

subsection \<open>Construction\<close>

text \<open>
  \<^verbatim>\<open>
  def __init__(self, uri, name, parent=None):
      assert(name in ['obsp', 'varp'])
      super().__init__(uri=uri, name=name, parent=parent)
      if name == 'obsp':
          self.row_dim_name = 'obs_id_i'
          self.col_dim_name = 'obs_id_j'
      else:
          self.row_dim_name = 'var_id_i'
          self.col_dim_name = 'var_id_j'
  \<close>
\<close>

definition init ::
  "bool \<Rightarrow> string \<Rightarrow> string \<Rightarrow> string \<Rightarrow> string option
     \<Rightarrow> error + annotation_pairwise_matrix_group" where
  "init vb ind u nm par =
     (if nm \<in> set [''obsp'', ''varp'']
      then (let self = super_init vb ind u nm par in
            if nm = ''obsp''
            then Inr (tiledb_group.extend self
                   (annotation_pairwise_matrix_group.fields ''obs_id_i'' ''obs_id_j''))
            else Inr (tiledb_group.extend self
                   (annotation_pairwise_matrix_group.fields ''var_id_i'' ''var_id_j'')))
      else Inl AssertionError)"

subsection \<open>Bulk import\<close>

text \<open>
  \<^verbatim>\<open>
  def from_anndata(self, annotation_pairwise_matrices, dim_values):
      self.open('w')
      for matrix_name in annotation_pairwise_matrices.keys():
          anndata_matrix = annotation_pairwise_matrices[matrix_name]
          matrix_uri = os.path.join(self.uri, matrix_name)
          annotation_pairwise_matrix = AssayMatrix(
              uri=matrix_uri, name=matrix_name,
              row_dim_name=self.row_dim_name, col_dim_name=self.col_dim_name,
              parent=self,
          )
          annotation_pairwise_matrix.from_matrix(anndata_matrix, dim_values, dim_values)
          self.add_object(annotation_pairwise_matrix)
      self.close()
  \<close>
  The source mapping is an association list (a Python mapping in iteration order).
  \<^verbatim>\<open>AssayMatrix.from_matrix\<close> belongs to the storage side and is a parameter: it
  receives the matrix object, the source matrix and the row and column labels, and
  answers \<open>None\<close> when the write succeeds and \<open>Some e\<close> when it raises \<open>e\<close>.
  The calls the import makes, in order, are recorded as events.
\<close>

type_synonym 'm from_matrix =
  "matrix_handle \<Rightarrow> 'm \<Rightarrow> string list \<Rightarrow> string list \<Rightarrow> error option"

datatype 'm event =
    EvOpen open_arg
  | EvFromMatrix matrix_handle 'm "string list" "string list"
  | EvAddObject matrix_handle
  | EvClose

definition new_assay_matrix ::
  "annotation_pairwise_matrix_group \<Rightarrow> string \<Rightarrow> matrix_handle" where
  "new_assay_matrix self matrix_name =
     AssayMatrix (path_join (uri self) matrix_name) matrix_name
       (row_dim_name self) (col_dim_name self) (uri self)"

fun import_loop ::
  "'m from_matrix \<Rightarrow> (string \<times> 'm) list \<Rightarrow> string list \<Rightarrow> string list
     \<Rightarrow> annotation_pairwise_matrix_group
     \<Rightarrow> (error + unit) \<times> annotation_pairwise_matrix_group \<times> 'm event list" where
  "import_loop from_matrix mats dim_values [] self = (Inr (), self, [])"
| "import_loop from_matrix mats dim_values (matrix_name # rest) self =
     (case map_of mats matrix_name of
        None \<Rightarrow> (Inl (KeyError matrix_name), self, [])
      | Some anndata_matrix \<Rightarrow>
          (let apm = new_assay_matrix self matrix_name;
               wrote = EvFromMatrix apm anndata_matrix dim_values dim_values
           in case from_matrix apm anndata_matrix dim_values dim_values of
                Some e \<Rightarrow> (Inl e, self, [wrote])
              | None \<Rightarrow>
                  (case add_object apm self of
                     Inl e \<Rightarrow> (Inl e, self, [wrote, EvAddObject apm])
                   | Inr self' \<Rightarrow>
                       (case import_loop from_matrix mats dim_values rest self' of
                          (r, self'', evs) \<Rightarrow>
                            (r, self'', wrote # EvAddObject apm # evs)))))"

definition from_anndata ::
  "'m from_matrix \<Rightarrow> annotation_pairwise_matrix_group \<Rightarrow> (string \<times> 'm) list
     \<Rightarrow> string list
     \<Rightarrow> (error + unit) \<times> annotation_pairwise_matrix_group \<times> 'm event list" where
  "from_anndata from_matrix self annotation_pairwise_matrices dim_values =
     (case tiledb_open W self of
        Inl e \<Rightarrow> (Inl e, self, [EvOpen W])
      | Inr self1 \<Rightarrow>
          (case import_loop from_matrix annotation_pairwise_matrices dim_values
                  (map fst annotation_pairwise_matrices) self1 of
             (Inl e, self2, evs) \<Rightarrow> (Inl e, self2, EvOpen W # evs)
           | (Inr u, self2, evs) \<Rightarrow>
               (Inr (), tiledb_close self2, EvOpen W # evs @ [EvClose])))"

subsection \<open>The storage engine, as the reading operations see it\<close>

text \<open>
  The calls into \<^verbatim>\<open>tiledb\<close>, \<^verbatim>\<open>pandas\<close>, \<^verbatim>\<open>scipy\<close> and \<^verbatim>\<open>tiledbsc.util\<close> are
  parameters:
  \<^item> \<open>group_elements u\<close> is \<^verbatim>\<open>tiledb.Group(u, mode='r')\<close>: the members the group
    lists, or \<open>None\<close> when the constructor raises (no group at \<open>u\<close>);
  \<^item> \<open>open_array u\<close> is \<^verbatim>\<open>tiledb.open(u)\<close>: \<open>Some e\<close> when it raises;
  \<^item> \<open>read_csr u\<close> is \<^verbatim>\<open>scipy.sparse.coo_matrix(pd.DataFrame(A[:])).tocsr()\<close> for the
    array at \<open>u\<close>, which may raise;
  \<^item> \<open>format_elapsed msg\<close> is \<^verbatim>\<open>util.format_elapsed(s, msg)\<close>, the elapsed time left
    to the parameter.
\<close>

record 'csr engine =
  group_elements :: "string \<Rightarrow> tiledb_object list option"
  open_array :: "string \<Rightarrow> error option"
  read_csr :: "string \<Rightarrow> error + 'csr"
  format_elapsed :: "string \<Rightarrow> string"

subsection \<open>Bulk export\<close>

text \<open>
  \<^verbatim>\<open>
  def to_dict_of_csr(self):
      grp = None
      try: # Not all groups have all four of obsm, obsp, varm, and varp.
          grp = tiledb.Group(self.uri, mode='r')
      except:
          pass
      if grp == None:
          if self.verbose:
              print(f"{self.indent}{self.uri} not found")
          return {}
      if self.verbose:
          s = util.get_start_stamp()
          print(f"{self.indent}START  read {self.uri}")
      matrices_in_group = {}
      for element in grp:
          with tiledb.open(element.uri) as A:
              with tiledb.open(element.uri) as A:
                  if self.verbose:
                      s2 = util.get_start_stamp()
                      print(f"{self.indent}START  read {element.uri}")
                  df = pd.DataFrame(A[:])
                  matrix_name = os.path.basename(element.uri)
                  matrices_in_group[matrix_name] = scipy.sparse.coo_matrix(df).tocsr()
                  if self.verbose:
                      print(util.format_elapsed(s2, f"{self.indent}FINISH read {element.uri}"))
      grp.close()
      if self.verbose:
          print(util.format_elapsed(s, f"{self.indent}FINISH read {self.uri}"))
      return matrices_in_group
  \<close>
  The result is the list of printed lines together with the returned dictionary or the
  exception that left the function.
\<close>

definition say :: "'a tiledb_group_scheme \<Rightarrow> string \<Rightarrow> string list" where
  "say self line = (if verbose self then [line] else [])"

fun read_elements ::
  "'csr engine \<Rightarrow> 'a tiledb_group_scheme \<Rightarrow> tiledb_object list
     \<Rightarrow> (string \<times> 'csr) list \<Rightarrow> string list \<times> (error + (string \<times> 'csr) list)" where
  "read_elements eng self [] matrices_in_group = ([], Inr matrices_in_group)"
| "read_elements eng self (element # rest) matrices_in_group =
     (case open_array eng (obj_uri element) of
        Some e \<Rightarrow> ([], Inl e)
      | None \<Rightarrow>
          (case open_array eng (obj_uri element) of
             Some e \<Rightarrow> ([], Inl e)
           | None \<Rightarrow>
               (let started = say self (indent self @ ''START  read '' @ obj_uri element)
                in case read_csr eng (obj_uri element) of
                     Inl e \<Rightarrow> (started, Inl e)
                   | Inr csr \<Rightarrow>
                       (let matrix_name = basename (obj_uri element);
                            finished = say self (format_elapsed eng
                              (indent self @ ''FINISH read '' @ obj_uri element))
                        in case read_elements eng self rest
                                  (AList.update matrix_name csr matrices_in_group) of
                             (out, r) \<Rightarrow> (started @ finished @ out, r)))))"

definition to_dict_of_csr ::
  "'csr engine \<Rightarrow> 'a tiledb_group_scheme
     \<Rightarrow> string list \<times> (error + (string \<times> 'csr) list)" where
  "to_dict_of_csr eng self =
     (case group_elements eng (uri self) of
        None \<Rightarrow> (say self (indent self @ uri self @ '' not found''), Inr [])
      | Some grp \<Rightarrow>
          (let started = say self (indent self @ ''START  read '' @ uri self)
           in case read_elements eng self grp [] of
                (out, Inl e) \<Rightarrow> (started @ out, Inl e)
              | (out, Inr matrices_in_group) \<Rightarrow>
                  (started @ out @ say self (format_elapsed eng
                     (indent self @ ''FINISH read '' @ uri self)),
                   Inr matrices_in_group)))"

subsection \<open>Lookup by name\<close>

text \<open>
  \<^verbatim>\<open>
  def __getitem__(self, name):
      self.open('r')
      obj = None
      try:
          obj = self.tiledb_group[name]
      except:
          pass
      self.close()
      if obj is None:
          return None
      elif obj.type == tiledb.tiledb.Group:
          raise Exception("Internal error: found group element where array element was expected.")
      elif obj.type == tiledb.libtiledb.Array:
          return AnnotationPairwiseMatrix(uri=obj.uri, name=name,
              row_dim_name=self.row_dim_name, col_dim_name=self.col_dim_name,
              parent=self)
      else:
          raise Exception("Internal error: found group element neither subgroup nor array: type is", str(obj.type))
  \<close>
  \<open>tiledb_group_index\<close> is \<^verbatim>\<open>self.tiledb_group[name]\<close> inside the \<^verbatim>\<open>try\<close>: the member
  of that name in the physical listing of the group, and \<open>None\<close> for whatever the
  subscript raises (no such member, no such group), since the bare \<^verbatim>\<open>except\<close> leaves
  \<^verbatim>\<open>obj\<close> at \<^verbatim>\<open>None\<close>.
\<close>

definition tiledb_group_index ::
  "'csr engine \<Rightarrow> 'a tiledb_group_scheme \<Rightarrow> string \<Rightarrow> tiledb_object option" where
  "tiledb_group_index eng self nm =
     (case group_elements eng (uri self) of
        None \<Rightarrow> None
      | Some grp \<Rightarrow> find (\<lambda>element. obj_name element = nm) grp)"

definition getitem ::
  "'csr engine \<Rightarrow> annotation_pairwise_matrix_group \<Rightarrow> string
     \<Rightarrow> (error + matrix_handle option) \<times> annotation_pairwise_matrix_group" where
  "getitem eng self nm =
     (case tiledb_open R self of
        Inl e \<Rightarrow> (Inl e, self)
      | Inr self1 \<Rightarrow>
          (let obj = tiledb_group_index eng self1 nm;
               self2 = tiledb_close self1
           in case obj of
                None \<Rightarrow> (Inr None, self2)
              | Some ob \<Rightarrow>
                  (case obj_type ob of
                     TGroup \<Rightarrow>
                       (Inl (PyException
                          [''Internal error: found group element where array element was expected.'']),
                        self2)
                   | TArray \<Rightarrow>
                       (Inr (Some (AnnotationPairwiseMatrix (obj_uri ob) nm
                          (row_dim_name self2) (col_dim_name self2) (uri self2))),
                        self2)
                   | TOther shown \<Rightarrow>
                       (Inl (PyException
                          [''Internal error: found group element neither subgroup nor array: type is'',
                           shown]),
                        self2))))"

section \<open>The metadata store\<close>

text \<open>
  The metadata store and its marshaller are exercised by
  \<^verbatim>\<open>tests/test_metadata.py\<close>; their implementation is not among the sources, so the
  definitions of this section follow the specification (sections 3, 4.1 and 4.2).
\<close>

subsection \<open>Values\<close>

text \<open>
  Modelled from the spec: the value type of a metadata entry (section 3): ``one of
  boolean, integer (64-bit signed), float (64-bit, IEEE-754 including NaN/Inf), string''.
  An integer is its 64-bit two's complement pattern (read by \<open>sint\<close>); a float is its
  64-bit IEEE-754 pattern.
\<close>

datatype scalar = VBool bool | VInt "64 word" | VFloat "64 word" | VStr string

text \<open>
  Modelled from the spec: what a caller may pass to \<open>set\<close> (section 4.1): a scalar, an
  ordered sequence or a key-value mapping.
\<close>

datatype pyvalue =
    Scalar scalar
  | PySequence "pyvalue list"
  | PyMapping "(pyvalue \<times> pyvalue) list"

text \<open>
  \<^verbatim>\<open>math.isnan\<close> and \<^verbatim>\<open>==\<close> on floats, on the bit patterns: a NaN has all eleven
  exponent bits set and a fraction that is not zero; two floats are equal when neither is
  a NaN and they are the same pattern or both a zero (of either sign).
\<close>

definition is_nan :: "64 word \<Rightarrow> bool" where
  "is_nan w =
     (w AND 0x7FF0000000000000 = 0x7FF0000000000000 \<and> w AND 0x000FFFFFFFFFFFFF \<noteq> 0)"

definition is_zero :: "64 word \<Rightarrow> bool" where
  "is_zero w = (w AND 0x7FFFFFFFFFFFFFFF = 0)"

definition float_eq :: "64 word \<Rightarrow> 64 word \<Rightarrow> bool" where
  "float_eq a b = (\<not> is_nan a \<and> \<not> is_nan b \<and> (a = b \<or> (is_zero a \<and> is_zero b)))"

text \<open>
  The two comparisons of \<^verbatim>\<open>test_metadata_marshalling_OK\<close>:
  \<^verbatim>\<open>type(test_value) is float and math.isnan(test_value)\<close>, and \<^verbatim>\<open>val == test_value\<close>
  between values of one scalar type (Python's \<^verbatim>\<open>==\<close> also identifies \<^verbatim>\<open>True\<close> with
  \<^verbatim>\<open>1\<close> and \<^verbatim>\<open>1\<close> with \<^verbatim>\<open>1.0\<close>; the relation here is the stricter one, which
  keeps the type).
\<close>

fun is_nan_value :: "scalar \<Rightarrow> bool" where
  "is_nan_value (VFloat w) = is_nan w"
| "is_nan_value _ = False"

fun scalar_eq :: "scalar \<Rightarrow> scalar \<Rightarrow> bool" where
  "scalar_eq (VBool a) (VBool b) = (a = b)"
| "scalar_eq (VInt a) (VInt b) = (a = b)"
| "scalar_eq (VFloat a) (VFloat b) = float_eq a b"
| "scalar_eq (VStr a) (VStr b) = (a = b)"
| "scalar_eq _ _ = False"

subsection \<open>The marshaller\<close>

text \<open>
  Modelled from the spec: the storage-native representation of a scalar (section 6:
  ``native IEEE-754 float storage, native signed 64-bit integers, native UTF-8 strings'').
\<close>

datatype storage_scalar =
    StBool bool
  | StInt64 "64 word"
  | StFloat64 "64 word"
  | StUtf8 string

text \<open>
  Modelled from the spec: \<open>encode\<close> of the marshaller (section 4.1): booleans, integers,
  floats (``encoded bit-exact'') and strings are accepted; ``ordered sequences and
  key-value mappings: marshaller fails with TypeMarshalError for any such input''.
\<close>

fun encode :: "pyvalue \<Rightarrow> error + storage_scalar" where
  "encode (Scalar (VBool b)) = Inr (StBool b)"
| "encode (Scalar (VInt i)) = Inr (StInt64 i)"
| "encode (Scalar (VFloat w)) = Inr (StFloat64 w)"
| "encode (Scalar (VStr s)) = Inr (StUtf8 s)"
| "encode (PySequence xs) = Inl TypeMarshalError"
| "encode (PyMapping kvs) = Inl TypeMarshalError"

text \<open>
  Modelled from the spec: \<open>decode\<close> of the marshaller (section 4.1), from the
  storage-native representation back to the value.
\<close>

fun decode :: "storage_scalar \<Rightarrow> scalar" where
  "decode (StBool b) = VBool b"
| "decode (StInt64 i) = VInt i"
| "decode (StFloat64 w) = VFloat w"
| "decode (StUtf8 s) = VStr s"

subsection \<open>The store of one open session\<close>

text \<open>
  Modelled from the spec: a metadata store exists only while its object is open
  (section 3: ``metadata exists iff openMode is not Closed''), so its session is one of the
  two open states of section 4.2.
\<close>

datatype session_mode = OpenRead | OpenWrite

text \<open>
  Modelled from the spec: the store of an open session: its mode and the entries as the
  session sees them, staged mutations included (section 4.2), reserved keys included
  (section 8: they ``persist physically'').
\<close>

record metadata_store =
  store_mode :: session_mode
  entries :: "(string \<times> storage_scalar) list"

text \<open>
  Modelled from the spec: the reserved namespace (section 3: ``keys starting with the
  internal marker''). The marker is the one the tests filter by:
  \<^verbatim>\<open>k.startswith("soma_")\<close>.
\<close>

definition is_reserved :: "string \<Rightarrow> bool" where
  "is_reserved k = startswith k ''soma_''"

text \<open>
  Modelled from the spec: \<open>get\<close> (section 4.2): ``returns decoded value or an absent
  indicator; never fails for a missing key''.
\<close>

definition get_item :: "metadata_store \<Rightarrow> string \<Rightarrow> scalar option" where
  "get_item s k = map_option decode (map_of (entries s) k)"

text \<open>
  Modelled from the spec: \<open>set\<close> (section 4.2): ``fails with ReadOnlyError if the
  session is OpenRead; fails with TypeMarshalError if the marshaller rejects value;
  otherwise stages the mutation, immediately visible to subsequent get/iteration calls''.
  The result is the outcome of the call and the store after it.
\<close>

definition set_item ::
  "metadata_store \<Rightarrow> string \<Rightarrow> pyvalue \<Rightarrow> (error + unit) \<times> metadata_store" where
  "set_item s k v =
     (if store_mode s = OpenRead then (Inl ReadOnlyError, s)
      else case encode v of
             Inl e \<Rightarrow> (Inl e, s)
           | Inr b \<Rightarrow> (Inr (), s\<lparr>entries := AList.update k b (entries s)\<rparr>))"

text \<open>
  Modelled from the spec: \<open>delete\<close> (section 4.2): ``fails with ReadOnlyError in read
  mode; removing an absent key is a no-op (no error)''.
\<close>

definition delete_item ::
  "metadata_store \<Rightarrow> string \<Rightarrow> (error + unit) \<times> metadata_store" where
  "delete_item s k =
     (if store_mode s = OpenRead then (Inl ReadOnlyError, s)
      else (Inr (), s\<lparr>entries := AList.delete k (entries s)\<rparr>))"

text \<open>
  Modelled from the spec: \<open>contains\<close> (section 4.2: ``reflects staged-but-unflushed
  state''; section 8: no reserved key ``ever appears in caller-facing
  items()/contains()/key enumeration'').
\<close>

definition contains :: "metadata_store \<Rightarrow> string \<Rightarrow> bool" where
  "contains s k = (\<not> is_reserved k \<and> map_of (entries s) k \<noteq> None)"

text \<open>
  Modelled from the spec: \<open>iterate\<close> / \<open>items\<close> (section 4.2): the (key, value) pairs
  of the current staged state, ``excluding all keys under the reserved namespace''.
\<close>

definition iterate :: "metadata_store \<Rightarrow> (string \<times> scalar) list" where
  "iterate s =
     map (\<lambda>(k, b). (k, decode b)) (filter (\<lambda>(k, b). \<not> is_reserved k) (entries s))"

text \<open>
  Modelled from the spec: \<open>update\<close> (section 4.2): ``equivalent to repeated set calls
  over the given mapping, same error conditions per entry, and stops at first failure
  (keys processed before a failing key remain staged)''.
\<close>

fun update_items ::
  "metadata_store \<Rightarrow> (string \<times> pyvalue) list \<Rightarrow> (error + unit) \<times> metadata_store" where
  "update_items s [] = (Inr (), s)"
| "update_items s ((k, v) # kvs) =
     (case set_item s k v of
        (Inl e, s') \<Rightarrow> (Inl e, s')
      | (Inr u, s') \<Rightarrow> update_items s' kvs)"

text \<open>
  The helper of the tests, as written there:
  \<^verbatim>\<open>
  def non_soma_metadata(obj):
      return {k: v for (k, v) in obj.metadata.items() if not k.startswith("soma_")}
  \<close>
\<close>

definition non_soma_metadata :: "metadata_store \<Rightarrow> (string \<times> scalar) list" where
  "non_soma_metadata obj = filter (\<lambda>(k, v). \<not> startswith k ''soma_'') (iterate obj)"

section \<open>Notions used to state the properties\<close>

text \<open>
  The values the marshaller must reject: ordered sequences and key-value mappings.
\<close>

fun is_container :: "pyvalue \<Rightarrow> bool" where
  "is_container (Scalar v) = False"
| "is_container (PySequence xs) = True"
| "is_container (PyMapping kvs) = True"

text \<open>
  The matrix objects an event of the bulk import concerns.
\<close>

fun event_children :: "'m event \<Rightarrow> matrix_handle list" where
  "event_children (EvFromMatrix c m rs cs) = [c]"
| "event_children (EvAddObject c) = [c]"
| "event_children _ = []"



section \<open>Concrete objects for the examples\<close>

text \<open>
  An \<^verbatim>\<open>obsp\<close> and a \<^verbatim>\<open>varp\<close> group as the constructor builds them, a storage
  engine that holds a group at the first URI only (with an array member and a subgroup
  member), and a \<^verbatim>\<open>from_matrix\<close> that always succeeds.
\<close>

definition example_obsp :: annotation_pairwise_matrix_group where
  "example_obsp =
     \<lparr>uri = ''/soma/obsp'', name = ''obsp'', parent = Some ''/soma'', verbose = False,
      indent = [], open_mode = Closed, members = [],
      row_dim_name = ''obs_id_i'', col_dim_name = ''obs_id_j''\<rparr>"

definition example_varp :: annotation_pairwise_matrix_group where
  "example_varp =
     \<lparr>uri = ''/soma/varp'', name = ''varp'', parent = Some ''/soma'', verbose = True,
      indent = [], open_mode = Closed, members = [],
      row_dim_name = ''var_id_i'', col_dim_name = ''var_id_j''\<rparr>"

definition example_engine :: "nat engine" where
  "example_engine =
     \<lparr>group_elements = (\<lambda>u. if u = ''/soma/obsp''
         then Some [\<lparr>obj_name = ''m1'', obj_uri = ''/soma/obsp/m1'', obj_type = TArray\<rparr>,
                    \<lparr>obj_name = ''sub'', obj_uri = ''/soma/obsp/sub'', obj_type = TGroup\<rparr>]
         else None),
      open_array = (\<lambda>u. None),
      read_csr = (\<lambda>u. Inr 0),
      format_elapsed = (\<lambda>msg. msg)\<rparr>"

definition write_ok :: "nat from_matrix" where
  "write_ok apm m rs cs = None"

text \<open>
  A store freshly opened for writing and one opened for reading, each holding a reserved
  key.
\<close>

definition fresh_store :: metadata_store where
  "fresh_store =
     \<lparr>store_mode = OpenWrite,
      entries = [(''soma_object_type'', StUtf8 ''SOMACollection'')]\<rparr>"

definition read_store :: metadata_store where
  "read_store =
     \<lparr>store_mode = OpenRead,
      entries = [(''soma_object_type'', StUtf8 ''SOMACollection''),
                 (''foobar'', StBool True)]\<rparr>"

lemmas example_defs =
  example_obsp_def example_varp_def example_engine_def write_ok_def
  fresh_store_def read_store_def

section \<open>The metadata store: round trip, rejection, open mode, reserved keys\<close>

lemma encode_scalar_ok: "\<exists>b. encode (Scalar v) = Inr b \<and> decode b = v"
  by (cases v) auto

lemma encode_container: "is_container v \<Longrightarrow> encode v = Inl TypeMarshalError"
  by (cases v) auto

lemma scalar_eq_refl: "scalar_eq v v = (\<not> is_nan_value v)"
  by (cases v) (auto simp: float_eq_def)

lemma is_nan_examples:
  "is_nan 0x7FF8000000000000" "\<not> is_nan 0x7FF0000000000000" "\<not> is_nan 0xFFF0000000000000"
  by (simp_all add: is_nan_def)

lemma float_eq_examples:
  "\<not> float_eq 0x7FF8000000000000 0x7FF8000000000000"
  "float_eq 0x7FF0000000000000 0x7FF0000000000000"
  "float_eq 0x8000000000000000 0"
  by (simp_all add: float_eq_def is_nan_def is_zero_def)

text \<open>
  Claim C1. For every value the marshaller accepts (a boolean, an integer, a float, NaN
  and the infinities included, a string, the empty one included), storing it under a key
  of a store open for writing succeeds, and reading the key back yields a value equal to
  it; when the value is a NaN, the value read back is a NaN (equality is not required).
\<close>

theorem set_get_roundtrip:
  "store_mode s = OpenWrite \<Longrightarrow>
   \<exists>s' v'. set_item s k (Scalar v) = (Inr (), s') \<and> get_item s' k = Some v'
     \<and> (if is_nan_value v then is_nan_value v' else scalar_eq v' v)"
proof -
  assume w: "store_mode s = OpenWrite"
  obtain b where b: "encode (Scalar v) = Inr b" "decode b = v"
    using encode_scalar_ok by blast
  let ?s' = "s\<lparr>entries := AList.update k b (entries s)\<rparr>"
  have "set_item s k (Scalar v) = (Inr (), ?s')"
    using w b by (simp add: set_item_def)
  moreover have "get_item ?s' k = Some v"
    using b by (simp add: get_item_def update_conv')
  moreover have "if is_nan_value v then is_nan_value v else scalar_eq v v"
    by (simp add: scalar_eq_refl)
  ultimately show ?thesis by blast
qed

text \<open>
  The theorem at the NaN of the tests (\<^verbatim>\<open>math.nan\<close>), on a fresh store.
\<close>

theorem set_get_roundtrip_witness:
  "store_mode fresh_store = OpenWrite
   \<and> is_nan_value (VFloat 0x7FF8000000000000)
   \<and> (\<exists>s' v'. set_item fresh_store ''test_value'' (Scalar (VFloat 0x7FF8000000000000))
          = (Inr (), s')
        \<and> get_item s' ''test_value'' = Some v' \<and> is_nan_value v')"
  using set_get_roundtrip [of fresh_store "''test_value''" "VFloat 0x7FF8000000000000"]
  by (simp add: fresh_store_def is_nan_def)

text \<open>
  The values of \<^verbatim>\<open>test_metadata_marshalling_OK\<close>, each stored under
  \<^verbatim>\<open>"test_value"\<close> in a fresh store and read back: \<^verbatim>\<open>True\<close>, \<^verbatim>\<open>False\<close>,
  \<^verbatim>\<open>0\<close>, \<^verbatim>\<open>1.00000001\<close>, \<^verbatim>\<open>-3.1415\<close>, the empty string,
  \<^verbatim>\<open>"a string"\<close>, \<^verbatim>\<open>math.nan\<close>, \<^verbatim>\<open>math.inf\<close> and \<^verbatim>\<open>-math.inf\<close>.
\<close>

lemma marshalling_OK_values:
  "\<forall>v \<in> set [VBool True, VBool False, VInt 0, VFloat 0x3FF0000002AF31DC,
       VFloat 0xC00921CAC083126F, VStr [], VStr ''a string'', VFloat 0x7FF8000000000000,
       VFloat 0x7FF0000000000000, VFloat 0xFFF0000000000000].
     contains (snd (set_item fresh_store ''test_value'' (Scalar v))) ''test_value''
     \<and> get_item (snd (set_item fresh_store ''test_value'' (Scalar v))) ''test_value'' = Some v
     \<and> (if is_nan_value v then True else scalar_eq v v)"
  by (simp add: fresh_store_def set_item_def get_item_def contains_def is_reserved_def
      startswith_def float_eq_def is_nan_def is_zero_def)

text \<open>
  Claim C2. For every ordered sequence or key-value mapping, setting it as a metadata value
  (on a store open for writing) fails with TypeMarshalError and writes nothing: the store
  after the call is the store before it, so a key that was absent is absent afterwards.
\<close>

theorem set_container_rejected:
  "store_mode s = OpenWrite \<Longrightarrow> is_container v \<Longrightarrow>
   \<exists>s'. set_item s k v = (Inl TypeMarshalError, s') \<and> s' = s
     \<and> (\<not> contains s k \<longrightarrow> \<not> contains s' k)
     \<and> (get_item s k = None \<longrightarrow> get_item s' k = None)"
  by (simp add: set_item_def encode_container)

text \<open>
  The theorem at the list of the tests, \<^verbatim>\<open>["a", "b", "c"]\<close>, on a fresh store.
\<close>

theorem set_container_rejected_witness:
  "store_mode fresh_store = OpenWrite
   \<and> is_container (PySequence [Scalar (VStr ''a''), Scalar (VStr ''b''), Scalar (VStr ''c'')])
   \<and> \<not> contains fresh_store ''test_value''
   \<and> (\<exists>s'. set_item fresh_store ''test_value''
          (PySequence [Scalar (VStr ''a''), Scalar (VStr ''b''), Scalar (VStr ''c'')])
          = (Inl TypeMarshalError, s')
        \<and> s' = fresh_store \<and> \<not> contains s' ''test_value''
        \<and> get_item s' ''test_value'' = None)"
  using set_container_rejected [of fresh_store
      "PySequence [Scalar (VStr ''a''), Scalar (VStr ''b''), Scalar (VStr ''c'')]"
      "''test_value''"]
  by (simp add: fresh_store_def contains_def get_item_def)

text \<open>
  Claim C3. On every store whose session is open read-only, every set and every delete
  fails with ReadOnlyError, and what a caller can see of the store (the result of get and
  of contains for every key, and the iteration) is the same after the failed call as
  before.
\<close>

theorem read_only_rejects_mutation:
  "store_mode s = OpenRead \<Longrightarrow>
   (\<exists>s'. set_item s k v = (Inl ReadOnlyError, s')
      \<and> (\<forall>q. get_item s' q = get_item s q \<and> contains s' q = contains s q)
      \<and> iterate s' = iterate s)
   \<and> (\<exists>s'. delete_item s k' = (Inl ReadOnlyError, s')
      \<and> (\<forall>q. get_item s' q = get_item s q \<and> contains s' q = contains s q)
      \<and> iterate s' = iterate s)"
  by (simp add: set_item_def delete_item_def)

text \<open>
  The theorem on a store opened for reading: \<^verbatim>\<open>metadata["x"] = "y"\<close> and
  \<^verbatim>\<open>del metadata["foobar"]\<close>.
\<close>

theorem read_only_rejects_mutation_witness:
  "store_mode read_store = OpenRead
   \<and> (\<exists>s'. set_item read_store ''x'' (Scalar (VStr ''y'')) = (Inl ReadOnlyError, s')
        \<and> (\<forall>q. get_item s' q = get_item read_store q
              \<and> contains s' q = contains read_store q)
        \<and> iterate s' = iterate read_store)
   \<and> (\<exists>s'. delete_item read_store ''foobar'' = (Inl ReadOnlyError, s')
        \<and> (\<forall>q. get_item s' q = get_item read_store q
              \<and> contains s' q = contains read_store q)
        \<and> iterate s' = iterate read_store)
   \<and> iterate read_store = [(''foobar'', VBool True)]"
proof -
  have h: "store_mode read_store = OpenRead"
    by (simp add: read_store_def)
  have i: "iterate read_store = [(''foobar'', VBool True)]"
    by (simp add: read_store_def iterate_def is_reserved_def startswith_def)
  from read_only_rejects_mutation [OF h, of "''x''" "Scalar (VStr ''y'')" "''foobar''"] h i
  show ?thesis by simp
qed



text \<open>
  With such an iteration the filter of the tests' helper changes nothing.
\<close>

lemma non_soma_metadata_iterate: "non_soma_metadata s = iterate s"
  by (simp add: non_soma_metadata_def iterate_def is_reserved_def filter_map o_def
      case_prod_unfold)

section \<open>Construction: the discriminant fixes the dimension names\<close>
lemma init_obsp:
  "init vb ind u ''obsp'' par =
     Inr \<lparr>uri = u, name = ''obsp'', parent = par, verbose = vb, indent = ind,
          open_mode = Closed, members = [],
          row_dim_name = ''obs_id_i'', col_dim_name = ''obs_id_j''\<rparr>"
  by (simp add: init_def super_init_def tiledb_group.defs
      annotation_pairwise_matrix_group.defs)

lemma init_varp:
  "init vb ind u ''varp'' par =
     Inr \<lparr>uri = u, name = ''varp'', parent = par, verbose = vb, indent = ind,
          open_mode = Closed, members = [],
          row_dim_name = ''var_id_i'', col_dim_name = ''var_id_j''\<rparr>"
  by (simp add: init_def super_init_def tiledb_group.defs
      annotation_pairwise_matrix_group.defs)

lemma init_other:
  "nm \<noteq> ''obsp'' \<Longrightarrow> nm \<noteq> ''varp'' \<Longrightarrow> init vb ind u nm par = Inl AssertionError"
  by (simp add: init_def)

text \<open>
  Claim C8. Constructing a pairwise matrix group with discriminant \<^verbatim>\<open>"obsp"\<close> fixes the
  row and column dimension names to the cell-axis pair \<^verbatim>\<open>obs_id_i\<close>, \<^verbatim>\<open>obs_id_j\<close>;
  with \<^verbatim>\<open>"varp"\<close> to the feature-axis pair \<^verbatim>\<open>var_id_i\<close>, \<^verbatim>\<open>var_id_j\<close>; any other
  discriminant makes the constructor fail (its assertion).
\<close>

theorem init_discriminant:
  "(\<exists>g. init vb ind u ''obsp'' par = Inr g
        \<and> row_dim_name g = ''obs_id_i'' \<and> col_dim_name g = ''obs_id_j'')
   \<and> (\<exists>g. init vb ind u ''varp'' par = Inr g
        \<and> row_dim_name g = ''var_id_i'' \<and> col_dim_name g = ''var_id_j'')
   \<and> (nm \<noteq> ''obsp'' \<and> nm \<noteq> ''varp'' \<longrightarrow> init vb ind u nm par = Inl AssertionError)"
  by (simp add: init_obsp init_varp init_other)

theorem init_discriminant_witness:
  "(\<exists>g. init False [] ''/soma/obsp'' ''obsp'' None = Inr g
        \<and> row_dim_name g = ''obs_id_i'' \<and> col_dim_name g = ''obs_id_j'')
   \<and> (\<exists>g. init False [] ''/soma/obsp'' ''varp'' None = Inr g
        \<and> row_dim_name g = ''var_id_i'' \<and> col_dim_name g = ''var_id_j'')
   \<and> ''obsm'' \<noteq> ''obsp'' \<and> ''obsm'' \<noteq> ''varp''
   \<and> init False [] ''/soma/obsp'' ''obsm'' None = Inl AssertionError"
  using init_discriminant [of False "[]" "''/soma/obsp''" None "''obsm''"] by simp

section \<open>Opening and closing, as the operations use them\<close>

lemma tiledb_open_R:
  "open_mode g \<noteq> ReadWrite \<Longrightarrow> tiledb_open R g = Inr (g\<lparr>open_mode := ReadOnly\<rparr>)"
  by (cases "open_mode g") (simp_all add: tiledb_open_def)

lemma tiledb_open_R_conflict:
  "open_mode g = ReadWrite \<Longrightarrow> tiledb_open R g = Inl OpenModeConflictError"
  by (simp add: tiledb_open_def)


lemma tiledb_group_index_open [simp]:
  "tiledb_group_index eng (g\<lparr>open_mode := st\<rparr>) nm = tiledb_group_index eng g nm"
  by (simp add: tiledb_group_index_def)

lemma tiledb_group_index_None_iff:
  "tiledb_group_index eng g nm = None \<longleftrightarrow>
     (\<forall>grp. group_elements eng (uri g) = Some grp \<longrightarrow> nm \<notin> obj_name ` set grp)"
  by (cases "group_elements eng (uri g)")
    (auto simp: tiledb_group_index_def find_None_iff)

lemma getitem_opened:
  "open_mode g \<noteq> ReadWrite \<Longrightarrow>
   getitem eng g nm =
     (case tiledb_group_index eng g nm of
        None \<Rightarrow> (Inr None, g\<lparr>open_mode := Closed\<rparr>)
      | Some ob \<Rightarrow>
          (case obj_type ob of
             TGroup \<Rightarrow>
               (Inl (PyException
                  [''Internal error: found group element where array element was expected.'']),
                g\<lparr>open_mode := Closed\<rparr>)
           | TArray \<Rightarrow>
               (Inr (Some (AnnotationPairwiseMatrix (obj_uri ob) nm
                  (row_dim_name g) (col_dim_name g) (uri g))),
                g\<lparr>open_mode := Closed\<rparr>)
           | TOther shown \<Rightarrow>
               (Inl (PyException
                  [''Internal error: found group element neither subgroup nor array: type is'',
                   shown]),
                g\<lparr>open_mode := Closed\<rparr>)))"
  by (simp add: getitem_def tiledb_open_R tiledb_close_def Let_def
      split: option.splits tiledb_type.splits)

lemma getitem_conflict:
  "open_mode g = ReadWrite \<Longrightarrow> getitem eng g nm = (Inl OpenModeConflictError, g)"
  by (simp add: getitem_def tiledb_open_R_conflict)

section \<open>Bulk import\<close>


lemma add_object_frame:
  "add_object c g = Inr g' \<Longrightarrow>
   uri g' = uri g \<and> row_dim_name g' = row_dim_name g \<and> col_dim_name g' = col_dim_name g"
  by (auto simp: add_object_def split: if_splits)

lemma new_assay_matrix_frame:
  "uri g' = uri g \<Longrightarrow> row_dim_name g' = row_dim_name g \<Longrightarrow> col_dim_name g' = col_dim_name g
   \<Longrightarrow> new_assay_matrix g' n = new_assay_matrix g n"
  by (simp add: new_assay_matrix_def)

lemma import_loop_children:
  "import_loop fm mats dv ns g = (r, g', evs) \<Longrightarrow>
   (\<forall>ev \<in> set evs. \<forall>c \<in> set (event_children ev).
      m_row_dim_name c = row_dim_name g \<and> m_col_dim_name c = col_dim_name g)"
proof (induction ns arbitrary: g r g' evs)
  case Nil
  then show ?case by simp
next
  case (Cons n ns)
  show ?case
  proof (cases "map_of mats n")
    case None
    with Cons.prems show ?thesis by simp
  next
    case (Some m)
    note m = this
    let ?c = "new_assay_matrix g n"
    have c: "m_row_dim_name ?c = row_dim_name g \<and> m_col_dim_name ?c = col_dim_name g"
      by (simp add: new_assay_matrix_def)
    show ?thesis
    proof (cases "fm ?c m dv dv")
      case (Some e)
      with Cons.prems m c show ?thesis by (auto simp: Let_def)
    next
      case None
      note w = this
      show ?thesis
      proof (cases "add_object ?c g")
        case (Inl e)
        with Cons.prems m w c show ?thesis by (auto simp: Let_def)
      next
        case (Inr g1)
        obtain r1 g2 evs1 where l: "import_loop fm mats dv ns g1 = (r1, g2, evs1)"
          by (cases "import_loop fm mats dv ns g1") auto
        from Inr have f: "row_dim_name g1 = row_dim_name g" "col_dim_name g1 = col_dim_name g"
          by (simp_all add: add_object_frame)
        from Cons.IH [OF l] f
        have ih: "\<forall>ev \<in> set evs1. \<forall>c \<in> set (event_children ev).
            m_row_dim_name c = row_dim_name g \<and> m_col_dim_name c = col_dim_name g"
          by simp
        from Cons.prems m w Inr l
        have "evs = EvFromMatrix ?c m dv dv # EvAddObject ?c # evs1"
          by (simp add: Let_def)
        with ih c show ?thesis by auto
      qed
    qed
  qed
qed




lemma path_join_examples:
  "path_join ''/soma/obsp'' ''m1'' = ''/soma/obsp/m1''"
  "path_join ''/soma/obsp/'' ''m1'' = ''/soma/obsp/m1''"
  "path_join ''/soma/obsp'' ''/tmp/x'' = ''/tmp/x''"
  "path_join [] ''m1'' = ''m1''"
  "path_join ''/soma/obsp'' [] = ''/soma/obsp/''"
  by (simp_all add: path_join_def startswith_def endswith_def suffix_to_prefix)

lemma basename_examples:
  "basename ''/soma/obsp/m1'' = ''m1''"
  "basename ''m1'' = ''m1''"
  "basename ''/soma/obsp/'' = []"
  by (simp_all add: basename_def)



lemma path_join_absolute: "startswith n ''/'' \<Longrightarrow> path_join u n = n"
  by (simp add: path_join_def)





lemma from_anndata_children:
  "from_anndata fm g mats dv = (r, g', evs) \<Longrightarrow>
   (\<forall>ev \<in> set evs. \<forall>c \<in> set (event_children ev).
      m_row_dim_name c = row_dim_name g \<and> m_col_dim_name c = col_dim_name g)"
proof -
  assume a: "from_anndata fm g mats dv = (r, g', evs)"
  show ?thesis
  proof (cases "tiledb_open W g")
    case (Inl e)
    with a show ?thesis by (auto simp: from_anndata_def)
  next
    case (Inr g1)
    then have f: "row_dim_name g1 = row_dim_name g" "col_dim_name g1 = col_dim_name g"
      by (auto simp: tiledb_open_def split: if_splits)
    obtain r1 g2 evs1 where l: "import_loop fm mats dv (map fst mats) g1 = (r1, g2, evs1)"
      by (cases "import_loop fm mats dv (map fst mats) g1") auto
    from import_loop_children [OF l] f
    have ih: "\<forall>ev \<in> set evs1. \<forall>c \<in> set (event_children ev).
        m_row_dim_name c = row_dim_name g \<and> m_col_dim_name c = col_dim_name g"
      by simp
    from a Inr l have "evs = EvOpen W # evs1 \<or> evs = EvOpen W # evs1 @ [EvClose]"
      by (cases r1) (auto simp: from_anndata_def)
    with ih show ?thesis by auto
  qed
qed

text \<open>
  Claim C6. Every child matrix handle of a pairwise matrix group carries the row and
  column dimension names of the group: each child the bulk import writes or registers
  (whether the import completes or not), and every handle a lookup by name returns.
\<close>

theorem children_share_dim_names:
  "(\<forall>ev \<in> set (snd (snd (from_anndata fm g mats dv))). \<forall>c \<in> set (event_children ev).
      m_row_dim_name c = row_dim_name g \<and> m_col_dim_name c = col_dim_name g)
   \<and> (\<forall>h. fst (getitem eng g nm) = Inr (Some h) \<longrightarrow>
      m_row_dim_name h = row_dim_name g \<and> m_col_dim_name h = col_dim_name g)"
proof
  obtain r g' evs where a: "from_anndata fm g mats dv = (r, g', evs)"
    by (cases "from_anndata fm g mats dv") auto
  from from_anndata_children [OF a] a
  show "\<forall>ev \<in> set (snd (snd (from_anndata fm g mats dv))). \<forall>c \<in> set (event_children ev).
      m_row_dim_name c = row_dim_name g \<and> m_col_dim_name c = col_dim_name g"
    by simp
next
  show "\<forall>h. fst (getitem eng g nm) = Inr (Some h) \<longrightarrow>
      m_row_dim_name h = row_dim_name g \<and> m_col_dim_name h = col_dim_name g"
  proof (cases "open_mode g = ReadWrite")
    case True
    then show ?thesis by (simp add: getitem_conflict)
  next
    case False
    then show ?thesis
      by (auto simp: getitem_opened split: option.splits tiledb_type.splits)
  qed
qed

text \<open>
  The theorem for the import of \<^verbatim>\<open>{"m1": 1}\<close> and for the lookup of
  \<^verbatim>\<open>"m1"\<close>.
\<close>

theorem children_share_dim_names_witness:
  "EvAddObject (AssayMatrix ''/soma/obsp/m1'' ''m1'' ''obs_id_i'' ''obs_id_j'' ''/soma/obsp'')
     \<in> set (snd (snd (from_anndata write_ok example_obsp [(''m1'', 1)] [''c1''])))
   \<and> m_row_dim_name (AssayMatrix ''/soma/obsp/m1'' ''m1'' ''obs_id_i'' ''obs_id_j'' ''/soma/obsp'')
       = row_dim_name example_obsp
   \<and> m_col_dim_name (AssayMatrix ''/soma/obsp/m1'' ''m1'' ''obs_id_i'' ''obs_id_j'' ''/soma/obsp'')
       = col_dim_name example_obsp
   \<and> fst (getitem example_engine example_obsp ''m1'') =
       Inr (Some (AnnotationPairwiseMatrix ''/soma/obsp/m1'' ''m1'' ''obs_id_i'' ''obs_id_j''
         ''/soma/obsp''))
   \<and> m_row_dim_name (AnnotationPairwiseMatrix ''/soma/obsp/m1'' ''m1'' ''obs_id_i'' ''obs_id_j''
         ''/soma/obsp'') = row_dim_name example_obsp
   \<and> m_col_dim_name (AnnotationPairwiseMatrix ''/soma/obsp/m1'' ''m1'' ''obs_id_i'' ''obs_id_j''
         ''/soma/obsp'') = col_dim_name example_obsp"
  using children_share_dim_names [of write_ok example_obsp "[(''m1'', 1)]" "[''c1'']"
      example_engine "''m1''"]
  by (simp add: example_defs from_anndata_def tiledb_open_def tiledb_close_def Let_def
      add_object_def new_assay_matrix_def path_join_def startswith_def endswith_def
      suffix_to_prefix getitem_def tiledb_group_index_def)

section \<open>Lookup by name and bulk export\<close>



text \<open>
  Claim C9. For every pairwise matrix group whose physical group was never created
  (opening it in the storage engine raises), the bulk export returns the empty mapping and
  raises nothing.
\<close>

theorem to_dict_of_csr_absent_group:
  "group_elements eng (uri g) = None \<Longrightarrow> snd (to_dict_of_csr eng g) = Inr []"
  by (simp add: to_dict_of_csr_def)

text \<open>
  The theorem for the \<^verbatim>\<open>varp\<close> group, which the example engine does not hold; the
  group is verbose, so the export prints that it was not found.
\<close>

theorem to_dict_of_csr_absent_group_witness:
  "group_elements example_engine (uri example_varp) = None
   \<and> to_dict_of_csr example_engine example_varp = ([''/soma/varp not found''], Inr [])"
  using to_dict_of_csr_absent_group [of example_engine example_varp]
  by (simp add: example_defs to_dict_of_csr_def say_def)




end
